theory Spec2Isabelle
  imports Complex_Main "HOL-Library.Sublist"
begin

section \<open>KolamAI front end (static/main.js): data model\<close>

text \<open>
  The script keeps two module-level variables (\<open>kolamData\<close>, \<open>animationState\<close>), a
  third one for the animation loop (\<open>lastFrameTime\<close>), and acts on the browser: the
  canvas, the text and class lists of named elements, alerts, the console, network
  requests, downloads and the animation-frame callback list. The model threads one
  record \<open>world\<close> holding all of them through every function.

  Numbers: JavaScript numbers are IEEE doubles. They are idealised here as rationals
  (no rounding, no negative zero). The one place where the script can leave the finite
  numbers is the quotient \<open>frameDelay / animationState.speed\<close>; its result is a
  \<open>jsnum\<close>, with the division by zero of IEEE arithmetic written out.

  Strings are given by their UTF-8 bytes; the four non-ASCII characters of the script
  are written as byte lists below.
\<close>

type_synonym number = rat

datatype jsnum = Finite rat | PosInfinity | NegInfinity | NaN

definition js_div :: "number \<Rightarrow> number \<Rightarrow> jsnum" where
  \<comment> \<open>\<open>a / b\<close> on numbers\<close>
  "js_div a b =
     (if b = 0 then (if 0 < a then PosInfinity else if a < 0 then NegInfinity else NaN)
      else Finite (a / b))"

fun js_lt :: "number \<Rightarrow> jsnum \<Rightarrow> bool" where
  \<comment> \<open>\<open>x < y\<close> for a finite left operand\<close>
  "js_lt x (Finite y) = (x < y)"
| "js_lt x PosInfinity = True"
| "js_lt x NegInfinity = False"
| "js_lt x NaN = False"

type_synonym point = "number \<times> number"

record grid =
  grid_type :: string
  dimensions :: "number \<times> number"
  dots :: "point list"

record equations =
  x_function :: string
  y_function :: string
  domain :: "number \<times> number"
  r_squared :: number

text \<open>The Pattern Record. The fields \<open>id\<close> and \<open>type\<close> are \<open>kolam_id\<close> and \<open>kolam_type\<close>.\<close>

record kolam =
  kolam_id :: string
  kolam_type :: string
  symmetry :: string
  complexity :: string
  grid :: grid
  equations :: equations
  paths :: "point list list"

record animation_state =
  isPlaying :: bool
  currentPathIndex :: nat
  currentPointIndex :: nat
  speed :: number
  animationId :: "nat option"

datatype js_error = TypeError | NetworkError | SyntaxError

text \<open>
  What the script draws, one constructor per drawing sequence: the \<open>fillRect\<close> over the
  whole canvas, a filled \<open>arc\<close> (colour, centre, radius), and a stroked line with its
  stroke colour, width and glow (\<open>shadowBlur\<close>, \<open>shadowColor\<close>).
\<close>

datatype draw_op =
  FillCanvas string
| FillDisk string point nat
| StrokeSegment string nat nat string point point

record image_file =
  file_type :: string
  file_bytes :: "nat list"

datatype request =
  PostAnalyze image_file
| PostExportSvg "point list list" "point list"

text \<open>
  The JSON object of a response: \<open>{ success, data?, svg?, error? }\<close>. A fetch either
  fails (rejection, or a body that is not JSON) or yields such an object.
\<close>

record result =
  success :: bool
  data :: "kolam option"
  svg :: "string option"
  error :: "string option"

datatype response = Rejected js_error | Json result

record download =
  filename :: string
  mime :: string
  content :: string

record world =
  kolamData :: "kolam option"
  animationState :: animation_state
  lastFrameTime :: number
  ctx :: "draw_op list option"
  textContent :: "string \<Rightarrow> string"
  classList :: "string \<Rightarrow> string set"
  fileInputValue :: string
  alerts :: "string list"
  console :: "(string \<times> js_error) list"
  requests :: "request list"
  downloads :: "download list"
  pending :: "nat list"
  issued :: nat
  uncaught :: "js_error list"

text \<open>
  \<open>ctx\<close> is \<open>None\<close> when the page has no canvas (\<open>ctx\<close> is \<open>null\<close> in the script) and
  otherwise holds the drawing operations issued so far. \<open>pending\<close> is the browser's list
  of animation-frame callbacks (all of them are \<open>animate\<close>), by handle; \<open>issued\<close> counts the
  handles handed out, so that every handle is positive. \<open>uncaught\<close> collects the
  exceptions that leave an event handler.
\<close>

definition glyph_play :: string where
  \<comment> \<open>U+25B6\<close>
  "glyph_play = [CHR 0xE2, CHR 0x96, CHR 0xB6]"

definition glyph_pause :: string where
  \<comment> \<open>U+23F8\<close>
  "glyph_pause = [CHR 0xE2, CHR 0x8F, CHR 0xB8]"

definition times_sign :: string where
  \<comment> \<open>U+00D7\<close>
  "times_sign = [CHR 0xC3, CHR 0x97]"

definition superscript_two :: string where
  \<comment> \<open>U+00B2\<close>
  "superscript_two = [CHR 0xC2, CHR 0xB2]"

definition js_string :: "string option \<Rightarrow> string" where
  \<comment> \<open>string conversion of a field that may be missing\<close>
  "js_string v = (case v of None \<Rightarrow> ''undefined'' | Some s \<Rightarrow> s)"

definition throw :: "js_error \<Rightarrow> world \<Rightarrow> world" where
  \<comment> \<open>an exception that nothing catches: the handler stops in the state it reached\<close>
  "throw e w = w\<lparr>uncaught := uncaught w @ [e]\<rparr>"

definition alert :: "string \<Rightarrow> world \<Rightarrow> world" where
  "alert msg w = w\<lparr>alerts := alerts w @ [msg]\<rparr>"

definition setPlayIcon :: "string \<Rightarrow> world \<Rightarrow> world" where
  "setPlayIcon g w = w\<lparr>textContent := (textContent w)(''playIcon'' := g)\<rparr>"

definition classList_add :: "string \<Rightarrow> string \<Rightarrow> world \<Rightarrow> world" where
  "classList_add el c w = w\<lparr>classList := (classList w)(el := insert c (classList w el))\<rparr>"

definition classList_remove :: "string \<Rightarrow> string \<Rightarrow> world \<Rightarrow> world" where
  "classList_remove el c w = w\<lparr>classList := (classList w)(el := classList w el - {c})\<rparr>"

definition requestAnimationFrame :: "world \<Rightarrow> nat \<times> world" where
  "requestAnimationFrame w =
     (let h = Suc (issued w) in (h, w\<lparr>pending := pending w @ [h], issued := h\<rparr>))"

definition cancelAnimationFrame :: "nat \<Rightarrow> world \<Rightarrow> world" where
  "cancelAnimationFrame h w = w\<lparr>pending := removeAll h (pending w)\<rparr>"

definition truthy_id :: "nat option \<Rightarrow> bool" where
  "truthy_id v = (case v of None \<Rightarrow> False | Some h \<Rightarrow> h \<noteq> 0)"

section \<open>Canvas renderer and results presenter\<close>

text \<open>
  \<open>drawGridDots\<close>: nothing without a record; otherwise one filled disk of radius 4 per
  grid dot. (The script also returns when the record has no \<open>dots\<close> field; the typed
  record always has one.) The function writes to \<open>ctx\<close> without a check of its own.
\<close>

definition drawGridDots :: "world \<Rightarrow> world" where
  "drawGridDots w =
     (case kolamData w of
        None \<Rightarrow> w
      | Some k \<Rightarrow>
          (case ctx w of
             None \<Rightarrow> throw TypeError w
           | Some ops \<Rightarrow>
               w\<lparr>ctx := Some (ops @ map (\<lambda>dot. FillDisk ''#FF6347'' dot 4) (dots (grid k)))\<rparr>))"

definition initializeCanvas :: "world \<Rightarrow> world" where
  "initializeCanvas w =
     (case ctx w of
        None \<Rightarrow> w
      | Some ops \<Rightarrow>
          (let w1 = w\<lparr>ctx := Some (ops @ [FillCanvas ''#000''])\<rparr>;
               w2 = drawGridDots w1;
               w3 = w2\<lparr>animationState := (animationState w2)
                        \<lparr>currentPathIndex := 0, currentPointIndex := 0, isPlaying := False\<rparr>\<rparr>
           in setPlayIcon glyph_play w3))"

definition setText :: "string \<times> string \<Rightarrow> world \<Rightarrow> world" where
  "setText p w = w\<lparr>textContent := (textContent w)(fst p := snd p)\<rparr>"

text \<open>
  \<open>displayResults\<close> is called inside the \<open>try\<close> of \<open>handleFileUpload\<close>, so it returns the
  exception it raised, if any, with the state it had reached. \<open>numstr\<close> is the string
  conversion of a number, which the template literals and \<open>textContent\<close> apply.
\<close>

definition displayResults :: "(number \<Rightarrow> string) \<Rightarrow> world \<Rightarrow> js_error option \<times> world" where
  "displayResults numstr w =
     (let w1 = classList_add ''resultsScreen'' ''active''
                 (classList_remove ''uploadScreen'' ''active'' w)
      in case kolamData w1 of
           None \<Rightarrow> (Some TypeError, w1)
         | Some k \<Rightarrow>
             (let dim = numstr (fst (dimensions (grid k))) @ '' '' @ times_sign @ '' ''
                          @ numstr (snd (dimensions (grid k)));
                  w2 = fold setText
                    [(''patternType'', kolam_type k),
                     (''symmetry'', symmetry k),
                     (''gridSize'', dim),
                     (''complexity'', complexity k),
                     (''xEquation'', x_function (equations k)),
                     (''yEquation'', y_function (equations k)),
                     (''domain'', ''['' @ numstr (fst (domain (equations k))) @ '', ''
                                   @ numstr (snd (domain (equations k))) @ '']''),
                     (''rSquared'', numstr (r_squared (equations k))),
                     (''gridType'', grid_type (grid k)),
                     (''gridDimensions'', dim),
                     (''totalPoints'', numstr (of_nat (length (dots (grid k)))))] w1
              in (None, initializeCanvas w2)))"

section \<open>Upload controller\<close>

text \<open>
  \<open>handleFileUpload\<close> is asynchronous: the part before the \<open>await\<close> shows the status
  banner and issues the request; the rest runs when the response has arrived.
\<close>

definition handleFileUpload_begin :: "image_file \<Rightarrow> world \<Rightarrow> world" where
  "handleFileUpload_begin f w =
     (let w1 = classList_remove ''uploadStatus'' ''hidden'' w
      in w1\<lparr>requests := requests w1 @ [PostAnalyze f]\<rparr>)"

definition upload_catch :: "js_error \<Rightarrow> world \<Rightarrow> world" where
  "upload_catch e w =
     classList_add ''uploadStatus'' ''hidden''
       (alert ''Failed to connect to server. Make sure the Flask backend is running on port 5000.''
          (w\<lparr>console := console w @ [(''Upload error:'', e)]\<rparr>))"

definition handleFileUpload_resume :: "(number \<Rightarrow> string) \<Rightarrow> response \<Rightarrow> world \<Rightarrow> world" where
  "handleFileUpload_resume numstr resp w =
     (case resp of
        Rejected e \<Rightarrow> upload_catch e w
      | Json r \<Rightarrow>
          if success r then
            (case displayResults numstr (w\<lparr>kolamData := data r\<rparr>) of
               (None, w') \<Rightarrow> w'
             | (Some e, w') \<Rightarrow> upload_catch e w')
          else
            classList_add ''uploadStatus'' ''hidden''
              (alert (''Error analyzing image: '' @ js_string (error r)) w))"

definition handleFileUpload :: "(number \<Rightarrow> string) \<Rightarrow> image_file \<Rightarrow> response \<Rightarrow> world \<Rightarrow> world" where
  \<comment> \<open>an upload whose response arrives before any other event\<close>
  "handleFileUpload numstr f resp w =
     handleFileUpload_resume numstr resp (handleFileUpload_begin f w)"

section \<open>Animation loop and its controls\<close>

definition frameDelay :: number where
  "frameDelay = 50"

definition complete :: "world \<Rightarrow> world" where
  \<comment> \<open>the two statements of both "complete" exits of \<open>animate\<close>\<close>
  "complete w =
     setPlayIcon glyph_play (w\<lparr>animationState := (animationState w)\<lparr>isPlaying := False\<rparr>\<rparr>)"

definition schedule :: "world \<Rightarrow> world" where
  \<comment> \<open>\<open>animationState.animationId = requestAnimationFrame(animate)\<close>\<close>
  "schedule w =
     (case requestAnimationFrame w of
        (h, w') \<Rightarrow> w'\<lparr>animationState := (animationState w')\<lparr>animationId := Some h\<rparr>\<rparr>)"

definition draw_segment :: "point \<Rightarrow> point \<Rightarrow> draw_op list" where
  \<comment> \<open>the stroke from \<open>start\<close> to \<open>end\<close> and the highlight at \<open>end\<close>\<close>
  "draw_segment start end' =
     [StrokeSegment ''#fff'' 3 10 ''#FFA500'' start end', FillDisk ''#FF6347'' end' 6]"

definition animate :: "number \<Rightarrow> world \<Rightarrow> world" where
  "animate timestamp w =
     (if \<not> isPlaying (animationState w) then w
      else
        let adjustedDelay = js_div frameDelay (speed (animationState w)) in
        if js_lt (timestamp - lastFrameTime w) adjustedDelay then schedule w
        else
          let w1 = w\<lparr>lastFrameTime := timestamp\<rparr> in
          case kolamData w1 of
            None \<Rightarrow> throw TypeError w1
          | Some k \<Rightarrow>
              let i = currentPathIndex (animationState w1);
                  j = currentPointIndex (animationState w1)
              in
              if length (paths k) \<le> i then complete w1
              else
                let currentPath = paths k ! i in
                if int j < int (length currentPath) - 1 then
                  (case ctx w1 of
                     None \<Rightarrow> throw TypeError w1
                   | Some ops \<Rightarrow>
                       schedule
                         (w1\<lparr>ctx := Some (ops @ draw_segment (currentPath ! j) (currentPath ! (j + 1))),
                             animationState := (animationState w1)\<lparr>currentPointIndex := j + 1\<rparr>\<rparr>))
                else
                  let w2 = w1\<lparr>animationState := (animationState w1)
                             \<lparr>currentPathIndex := i + 1, currentPointIndex := 0\<rparr>\<rparr>
                  in if length (paths k) \<le> i + 1 then complete w2 else schedule w2)"

definition cancel_tracked :: "world \<Rightarrow> world" where
  \<comment> \<open>\<open>if (animationState.animationId) cancelAnimationFrame(animationState.animationId)\<close>\<close>
  "cancel_tracked w =
     (case animationId (animationState w) of
        None \<Rightarrow> w
      | Some h \<Rightarrow> if truthy_id (Some h) then cancelAnimationFrame h w else w)"

definition togglePlayPause :: "world \<Rightarrow> world" where
  "togglePlayPause w =
     (let w1 = w\<lparr>animationState := (animationState w)
                  \<lparr>isPlaying := \<not> isPlaying (animationState w)\<rparr>\<rparr>
      in if isPlaying (animationState w1) then animate 0 (setPlayIcon glyph_pause w1)
         else cancel_tracked (setPlayIcon glyph_play w1))"

definition resetAnimation :: "world \<Rightarrow> world" where
  "resetAnimation w =
     (let w1 = cancel_tracked w;
          w2 = w1\<lparr>animationState := (animationState w1)
                  \<lparr>isPlaying := False, currentPathIndex := 0, currentPointIndex := 0\<rparr>\<rparr>
      in initializeCanvas (setPlayIcon glyph_play w2))"

definition speedInput :: "(number \<Rightarrow> string) \<Rightarrow> number \<Rightarrow> world \<Rightarrow> world" where
  \<comment> \<open>the slider's listener; \<open>v\<close> is \<open>parseFloat(e.target.value)\<close>\<close>
  "speedInput numstr v w =
     setText (''speedValue'', numstr v @ ''x'')
       (w\<lparr>animationState := (animationState w)\<lparr>speed := v\<rparr>\<rparr>)"

definition resetApp :: "world \<Rightarrow> world" where
  "resetApp w =
     (let w1 = cancel_tracked w;
          w2 = w1\<lparr>animationState := (animationState w1)
                  \<lparr>isPlaying := False, currentPathIndex := 0, currentPointIndex := 0\<rparr>,
                  kolamData := None\<rparr>;
          w3 = classList_add ''uploadStatus'' ''hidden''
                 (classList_add ''uploadScreen'' ''active''
                    (classList_remove ''resultsScreen'' ''active'' w2))
      in w3\<lparr>fileInputValue := []\<rparr>)"

text \<open>
  The browser's side of the loop: an animation frame at time \<open>ts\<close> takes the oldest
  pending callback off the list and calls it with \<open>ts\<close>. The events of the animation
  controls are the two buttons, the slider and the frame.
\<close>

definition animationFrame :: "number \<Rightarrow> world \<Rightarrow> world" where
  "animationFrame ts w =
     (case pending w of [] \<Rightarrow> w | h # hs \<Rightarrow> animate ts (w\<lparr>pending := hs\<rparr>))"

datatype event = ClickPlayPause | ClickReset | SpeedInput number | AnimationFrame number

fun handle :: "(number \<Rightarrow> string) \<Rightarrow> event \<Rightarrow> world \<Rightarrow> world" where
  "handle numstr ClickPlayPause w = togglePlayPause w"
| "handle numstr ClickReset w = resetAnimation w"
| "handle numstr (SpeedInput v) w = speedInput numstr v w"
| "handle numstr (AnimationFrame ts) w = animationFrame ts w"

definition run :: "(number \<Rightarrow> string) \<Rightarrow> event list \<Rightarrow> world \<Rightarrow> world" where
  "run numstr evs w = fold (handle numstr) evs w"

section \<open>Export actions\<close>

definition trigger_download :: "string \<Rightarrow> string \<Rightarrow> string \<Rightarrow> world \<Rightarrow> world" where
  \<comment> \<open>the blob, the temporary anchor and its click\<close>
  "trigger_download name ty body w =
     w\<lparr>downloads := downloads w @ [\<lparr>filename = name, mime = ty, content = body\<rparr>]\<rparr>"

definition export_catch :: "js_error \<Rightarrow> world \<Rightarrow> world" where
  "export_catch e w =
     alert ''Failed to export SVG'' (w\<lparr>console := console w @ [(''Export error:'', e)]\<rparr>)"

definition exportSVG_resume :: "response \<Rightarrow> world \<Rightarrow> world" where
  "exportSVG_resume resp w =
     (case resp of
        Rejected e \<Rightarrow> export_catch e w
      | Json r \<Rightarrow>
          if success r then
            (case kolamData w of
               None \<Rightarrow> export_catch TypeError w
             | Some k \<Rightarrow>
                 alert ''SVG exported successfully!''
                   (trigger_download (''kolam_'' @ kolam_id k @ ''.svg'') ''image/svg+xml''
                      (js_string (svg r)) w))
          else alert (''Export failed: '' @ js_string (error r)) w)"

definition exportSVG :: "response \<Rightarrow> world \<Rightarrow> world" where
  \<comment> \<open>an export whose response arrives before any other event\<close>
  "exportSVG resp w =
     (case kolamData w of
        None \<Rightarrow> w
      | Some k \<Rightarrow>
          exportSVG_resume resp
            (w\<lparr>requests := requests w @ [PostExportSvg (paths k) (dots (grid k))]\<rparr>))"

definition newline :: string where
  "newline = [CHR 0x0A]"

definition equationData :: "(number \<Rightarrow> string) \<Rightarrow> string \<Rightarrow> kolam \<Rightarrow> string" where
  \<comment> \<open>the template literal; \<open>now\<close> is \<open>new Date().toLocaleString()\<close>\<close>
  "equationData numstr now k =
     ''Kolam Pattern Equations'' @ newline @
     ''========================'' @ newline @
     ''Pattern ID: '' @ kolam_id k @ newline @
     ''Type: '' @ kolam_type k @ newline @
     ''Complexity: '' @ complexity k @ newline @
     ''Symmetry: '' @ symmetry k @ newline @
     newline @
     ''Parametric Equations:'' @ newline @
     ''x(t) = '' @ x_function (equations k) @ newline @
     ''y(t) = '' @ y_function (equations k) @ newline @
     newline @
     ''Domain: ['' @ numstr (fst (domain (equations k))) @ '', ''
        @ numstr (snd (domain (equations k))) @ '']'' @ newline @
     ''R'' @ superscript_two @ '' = '' @ numstr (r_squared (equations k)) @ newline @
     newline @
     ''Grid Configuration:'' @ newline @
     ''Type: '' @ grid_type (grid k) @ newline @
     ''Dimensions: '' @ numstr (fst (dimensions (grid k))) @ '' '' @ times_sign @ '' ''
        @ numstr (snd (dimensions (grid k))) @ newline @
     ''Total Points: '' @ numstr (of_nat (length (dots (grid k)))) @ newline @
     newline @
     ''Generated: '' @ now @ newline"

definition saveEquation :: "(number \<Rightarrow> string) \<Rightarrow> string \<Rightarrow> world \<Rightarrow> world" where
  "saveEquation numstr now w =
     (case kolamData w of
        None \<Rightarrow> w
      | Some k \<Rightarrow>
          alert ''Equation file saved successfully!''
            (trigger_download (''kolam_equations_'' @ kolam_id k @ ''.txt'') ''text/plain''
               (equationData numstr now k) w))"

section \<open>Invariants and sample data\<close>

text \<open>
  At most one frame callback is pending, the loop is playing while it is, and
  \<open>animationState.animationId\<close> holds its handle.
\<close>

definition one_frame :: "world \<Rightarrow> bool" where
  "one_frame w =
     (case pending w of
        [] \<Rightarrow> True
      | [h] \<Rightarrow> isPlaying (animationState w) \<and> h \<noteq> 0
                 \<and> animationId (animationState w) = Some h
      | _ \<Rightarrow> False)"

text \<open>
  The cursors against a record \<open>k\<close>: the path index is at most the number of paths, and
  while it names a path the point index is at most that path's last index, or 0 when the
  path is empty.
\<close>

definition cursors_ok :: "kolam \<Rightarrow> world \<Rightarrow> bool" where
  "cursors_ok k w =
     (let i = currentPathIndex (animationState w); j = currentPointIndex (animationState w)
      in i \<le> length (paths k)
         \<and> (i < length (paths k) \<longrightarrow> int j \<le> max 0 (int (length (paths k ! i)) - 1)))"

text \<open>
  The range as the specification words it: \<open>currentPointIndex\<close> in
  \<open>[0, currentPath.length - 1]\<close>, the subtraction being the one of the script's integers.
\<close>

definition cursor_range_spec :: "kolam \<Rightarrow> world \<Rightarrow> bool" where
  "cursor_range_spec k w =
     (let i = currentPathIndex (animationState w); j = currentPointIndex (animationState w)
      in i \<le> length (paths k)
         \<and> (i < length (paths k) \<longrightarrow> int j \<le> int (length (paths k ! i)) - 1))"

text \<open>The state in which the script starts (its initialisers), on a page with a canvas.\<close>

definition initial_world :: world where
  "initial_world =
     \<lparr>kolamData = None,
      animationState = \<lparr>isPlaying = False, currentPathIndex = 0, currentPointIndex = 0,
                        speed = 1, animationId = None\<rparr>,
      lastFrameTime = 0,
      ctx = Some [],
      textContent = (\<lambda>el. []),
      classList = (\<lambda>el. {}),
      fileInputValue = [],
      alerts = [], console = [], requests = [], downloads = [],
      pending = [], issued = 0, uncaught = []\<rparr>"

text \<open>
  A record with a two-point path followed by a one-point path, and the page after the
  upload that returned it.
\<close>

definition demo_kolam :: kolam where
  "demo_kolam =
     \<lparr>kolam_id = ''abc123'', kolam_type = ''pulli'', symmetry = ''rotational'',
      complexity = ''low'',
      grid = \<lparr>grid_type = ''square'', dimensions = (2, 1), dots = [(0, 0), (10, 0)]\<rparr>,
      equations = \<lparr>x_function = ''cos(t)'', y_function = ''sin(t)'', domain = (0, 1),
                   r_squared = 1\<rparr>,
      paths = [[(0, 0), (10, 0)], [(5, 5)]]\<rparr>"

definition demo_numstr :: "number \<Rightarrow> string" where
  \<comment> \<open>a number-to-string conversion, right on -1, 0, 1 and 2\<close>
  "demo_numstr x =
     (if x = 0 then ''0'' else if x = 1 then ''1'' else if x = 2 then ''2''
      else if x = - 1 then ''-1'' else ''?'')"

definition demo_image :: image_file where
  "demo_image = \<lparr>file_type = ''image/png'', file_bytes = [137, 80, 78, 71]\<rparr>"

definition demo_reply :: "kolam \<Rightarrow> response" where
  "demo_reply k = Json \<lparr>success = True, data = Some k, svg = None, error = None\<rparr>"

definition loaded_world :: "kolam \<Rightarrow> world" where
  "loaded_world k = handleFileUpload demo_numstr demo_image (demo_reply k) initial_world"

definition demo_world :: world where
  "demo_world = loaded_world demo_kolam"

text \<open>The same record with an empty second path.\<close>

definition gap_kolam :: kolam where
  "gap_kolam = demo_kolam\<lparr>paths := [[(0, 0), (10, 0)], []]\<rparr>"

definition gap_world :: world where
  "gap_world = loaded_world gap_kolam"

definition bad_input :: result where
  "bad_input = \<lparr>success = False, data = None, svg = None, error = Some ''bad input''\<rparr>"

definition svg_ok :: result where
  "svg_ok = \<lparr>success = True, data = None, svg = Some ''<svg/>'', error = None\<rparr>"




text \<open>What \<open>initializeCanvas\<close> draws: the background, then the grid dots of the record.\<close>

definition redraw_ops :: "kolam option \<Rightarrow> draw_op list" where
  "redraw_ops kd =
     FillCanvas ''#000'' #
       (case kd of None \<Rightarrow> [] | Some k \<Rightarrow> map (\<lambda>dot. FillDisk ''#FF6347'' dot 4) (dots (grid k)))"


section \<open>The sample page\<close>

text \<open>
  After a successful upload the record is stored, the canvas shows the background and
  the grid dots, the loop is paused at the start and no frame is pending.
\<close>

lemma loaded_world_simps:
  "kolamData (loaded_world k) = Some k"
  "animationState (loaded_world k)
     = \<lparr>isPlaying = False, currentPathIndex = 0, currentPointIndex = 0, speed = 1,
        animationId = None\<rparr>"
  "lastFrameTime (loaded_world k) = 0"
  "ctx (loaded_world k) = Some (redraw_ops (Some k))"
  "textContent (loaded_world k) ''playIcon'' = glyph_play"
  "fileInputValue (loaded_world k) = []"
  "alerts (loaded_world k) = []"
  "console (loaded_world k) = []"
  "requests (loaded_world k) = [PostAnalyze demo_image]"
  "downloads (loaded_world k) = []"
  "pending (loaded_world k) = []"
  "issued (loaded_world k) = 0"
  "uncaught (loaded_world k) = []"
  by (simp_all add: loaded_world_def demo_reply_def handleFileUpload_def
      handleFileUpload_begin_def handleFileUpload_resume_def displayResults_def
      initializeCanvas_def drawGridDots_def setPlayIcon_def setText_def classList_add_def
      classList_remove_def initial_world_def redraw_ops_def Let_def)

lemmas demo_defs = demo_world_def gap_world_def loaded_world_simps demo_kolam_def
  gap_kolam_def redraw_ops_def

section \<open>Export actions: properties\<close>

lemma sublist_equationData:
  "sublist (x_function (equations k)) (equationData numstr now k)"
  "sublist (y_function (equations k)) (equationData numstr now k)"
  "sublist (numstr (fst (domain (equations k)))) (equationData numstr now k)"
  "sublist (numstr (snd (domain (equations k)))) (equationData numstr now k)"
  "sublist (numstr (r_squared (equations k))) (equationData numstr now k)"
  unfolding equationData_def sublist_def by (metis append.assoc)+

text \<open>
  C9. With a live record, the equation export sends nothing over the network and
  triggers one download, named \<open>kolam_equations_<id>.txt\<close>, whose text contains the
  record's \<open>x_function\<close>, \<open>y_function\<close>, both domain endpoints and \<open>r_squared\<close> (the
  numbers in their string conversion).
\<close>

theorem saveEquation_download:
  assumes "kolamData w = Some k"
  shows "requests (saveEquation numstr now w) = requests w
    \<and> (\<exists>d. downloads (saveEquation numstr now w) = downloads w @ [d]
          \<and> filename d = ''kolam_equations_'' @ kolam_id k @ ''.txt''
          \<and> sublist (x_function (equations k)) (content d)
          \<and> sublist (y_function (equations k)) (content d)
          \<and> sublist (numstr (fst (domain (equations k)))) (content d)
          \<and> sublist (numstr (snd (domain (equations k)))) (content d)
          \<and> sublist (numstr (r_squared (equations k))) (content d))"
proof -
  let ?d = "\<lparr>filename = ''kolam_equations_'' @ kolam_id k @ ''.txt'', mime = ''text/plain'',
              content = equationData numstr now k\<rparr>"
  have dl: "downloads (saveEquation numstr now w) = downloads w @ [?d]"
    and rq: "requests (saveEquation numstr now w) = requests w"
    using assms by (simp_all add: saveEquation_def alert_def trigger_download_def)
  have "filename ?d = ''kolam_equations_'' @ kolam_id k @ ''.txt''"
    and "content ?d = equationData numstr now k"
    by simp_all
  with dl rq sublist_equationData [where k=k and numstr=numstr and now=now] show ?thesis
    by (intro conjI exI [of _ ?d]) simp_all
qed

text \<open>The record with id \<open>abc123\<close> gives a file named \<open>kolam_equations_abc123.txt\<close>.\<close>

theorem saveEquation_download_witness:
  "kolamData demo_world = Some demo_kolam
   \<and> requests (saveEquation demo_numstr ''2 Nov'' demo_world) = requests demo_world
   \<and> map filename (downloads (saveEquation demo_numstr ''2 Nov'' demo_world))
       = [''kolam_equations_abc123.txt'']"
proof -
  have k: "kolamData demo_world = Some demo_kolam"
    by (simp add: demo_defs)
  from saveEquation_download [OF k, of demo_numstr "''2 Nov''"]
  obtain d where
    "downloads (saveEquation demo_numstr ''2 Nov'' demo_world) = downloads demo_world @ [d]"
    and "filename d = ''kolam_equations_'' @ kolam_id demo_kolam @ ''.txt''"
    and "requests (saveEquation demo_numstr ''2 Nov'' demo_world) = requests demo_world"
    by blast
  with k show ?thesis
    by (simp add: demo_defs)
qed



text \<open>
  C10. Without a record both exports return at once: the state, and with it the
  requests, downloads, alerts and uncaught exceptions, is the one before the call.
\<close>

theorem export_guard:
  "kolamData w = None \<Longrightarrow> exportSVG resp w = w \<and> saveEquation numstr now w = w"
  by (simp add: exportSVG_def saveEquation_def)

theorem export_guard_witness:
  "kolamData initial_world = None \<and> exportSVG (Json svg_ok) initial_world = initial_world
     \<and> saveEquation demo_numstr ''2 Nov'' initial_world = initial_world"
  using export_guard [of initial_world "Json svg_ok" demo_numstr "''2 Nov''"]
  by (simp add: initial_world_def)

section \<open>Upload controller: properties\<close>

lemma kolamData_upload_catch [simp]: "kolamData (upload_catch e w) = kolamData w"
  by (simp add: upload_catch_def classList_add_def alert_def)

lemma assignment_only_on_success:
  "kolamData (handleFileUpload_resume numstr resp w) \<noteq> kolamData w
     \<Longrightarrow> \<exists>r. resp = Json r \<and> success r"
  by (cases resp)
    (auto simp add: handleFileUpload_resume_def classList_add_def alert_def split: if_splits)

text \<open>
  C5. When the response to an upload reports failure, the user is alerted with
  \<open>Error analyzing image: \<close> followed by the server's message, the status banner is
  hidden again, the upload's request stays the only one, and the record, the animation
  state and the canvas are as before. Whatever the response, the record changes only
  when the response reports success.
\<close>

theorem upload_failure:
  assumes "\<not> success r"
  shows "alerts (handleFileUpload numstr f (Json r) w)
           = alerts w @ [''Error analyzing image: '' @ js_string (error r)]
    \<and> ''hidden'' \<in> classList (handleFileUpload numstr f (Json r) w) ''uploadStatus''
    \<and> requests (handleFileUpload numstr f (Json r) w) = requests w @ [PostAnalyze f]
    \<and> kolamData (handleFileUpload numstr f (Json r) w) = kolamData w
    \<and> animationState (handleFileUpload numstr f (Json r) w) = animationState w
    \<and> ctx (handleFileUpload numstr f (Json r) w) = ctx w
    \<and> (kolamData (handleFileUpload numstr f resp w) \<noteq> kolamData w
          \<longrightarrow> (\<exists>r'. resp = Json r' \<and> success r'))"
proof -
  have "kolamData (handleFileUpload_begin f w) = kolamData w"
    by (simp add: handleFileUpload_begin_def classList_remove_def)
  then have "kolamData (handleFileUpload numstr f resp w) \<noteq> kolamData w
      \<longrightarrow> (\<exists>r'. resp = Json r' \<and> success r')"
    using assignment_only_on_success [of numstr resp "handleFileUpload_begin f w"]
    by (simp add: handleFileUpload_def)
  with assms show ?thesis
    by (simp add: handleFileUpload_def handleFileUpload_resume_def handleFileUpload_begin_def
        alert_def classList_add_def classList_remove_def)
qed

theorem upload_failure_witness:
  "\<not> success bad_input
   \<and> alerts (handleFileUpload demo_numstr demo_image (Json bad_input) demo_world)
       = [''Error analyzing image: bad input'']
   \<and> ''hidden'' \<in> classList (handleFileUpload demo_numstr demo_image (Json bad_input) demo_world)
        ''uploadStatus''
   \<and> requests (handleFileUpload demo_numstr demo_image (Json bad_input) demo_world)
       = [PostAnalyze demo_image, PostAnalyze demo_image]
   \<and> kolamData (handleFileUpload demo_numstr demo_image (Json bad_input) demo_world)
       = Some demo_kolam"
  using upload_failure [of bad_input demo_numstr demo_image demo_world "Json bad_input"]
  by (simp add: bad_input_def js_string_def demo_defs)

section \<open>Animation loop: properties\<close>

lemma schedule_eq:
  "schedule w = w\<lparr>pending := pending w @ [Suc (issued w)], issued := Suc (issued w),
                  animationState := (animationState w)\<lparr>animationId := Some (Suc (issued w))\<rparr>\<rparr>"
  by (simp add: schedule_def requestAnimationFrame_def Let_def)

lemma schedule_simps [simp]:
  "kolamData (schedule w) = kolamData w"
  "lastFrameTime (schedule w) = lastFrameTime w"
  "ctx (schedule w) = ctx w"
  "textContent (schedule w) = textContent w"
  "pending (schedule w) = pending w @ [Suc (issued w)]"
  "issued (schedule w) = Suc (issued w)"
  "uncaught (schedule w) = uncaught w"
  "isPlaying (animationState (schedule w)) = isPlaying (animationState w)"
  "currentPathIndex (animationState (schedule w)) = currentPathIndex (animationState w)"
  "currentPointIndex (animationState (schedule w)) = currentPointIndex (animationState w)"
  "speed (animationState (schedule w)) = speed (animationState w)"
  "animationId (animationState (schedule w)) = Some (Suc (issued w))"
  by (simp_all add: schedule_eq)

lemma complete_simps [simp]:
  "kolamData (complete w) = kolamData w"
  "lastFrameTime (complete w) = lastFrameTime w"
  "ctx (complete w) = ctx w"
  "textContent (complete w) = (textContent w)(''playIcon'' := glyph_play)"
  "pending (complete w) = pending w"
  "issued (complete w) = issued w"
  "uncaught (complete w) = uncaught w"
  "isPlaying (animationState (complete w)) = False"
  "currentPathIndex (animationState (complete w)) = currentPathIndex (animationState w)"
  "currentPointIndex (animationState (complete w)) = currentPointIndex (animationState w)"
  "speed (animationState (complete w)) = speed (animationState w)"
  "animationId (animationState (complete w)) = animationId (animationState w)"
  by (simp_all add: complete_def setPlayIcon_def)

lemma throw_simps [simp]:
  "kolamData (throw e w) = kolamData w"
  "lastFrameTime (throw e w) = lastFrameTime w"
  "ctx (throw e w) = ctx w"
  "textContent (throw e w) = textContent w"
  "pending (throw e w) = pending w"
  "issued (throw e w) = issued w"
  "animationState (throw e w) = animationState w"
  by (simp_all add: throw_def)

lemma setPlayIcon_simps [simp]:
  "kolamData (setPlayIcon g w) = kolamData w"
  "lastFrameTime (setPlayIcon g w) = lastFrameTime w"
  "ctx (setPlayIcon g w) = ctx w"
  "textContent (setPlayIcon g w) = (textContent w)(''playIcon'' := g)"
  "pending (setPlayIcon g w) = pending w"
  "issued (setPlayIcon g w) = issued w"
  "uncaught (setPlayIcon g w) = uncaught w"
  "animationState (setPlayIcon g w) = animationState w"
  by (simp_all add: setPlayIcon_def)

lemma animate_paused:
  "\<not> isPlaying (animationState w) \<Longrightarrow> animate ts w = w"
  by (simp add: animate_def)


lemma animate_no_record:
  "isPlaying (animationState w)
   \<Longrightarrow> \<not> js_lt (ts - lastFrameTime w) (js_div frameDelay (speed (animationState w)))
   \<Longrightarrow> kolamData w = None
   \<Longrightarrow> animate ts w = throw TypeError (w\<lparr>lastFrameTime := ts\<rparr>)"
  by (simp add: animate_def)





text \<open>Unfolding the loop on the sample page.\<close>

lemmas eval_defs = togglePlayPause_def animate_def animationFrame_def schedule_eq complete_def
  setPlayIcon_def throw_def js_div_def frameDelay_def draw_segment_def cancel_tracked_def
  truthy_id_def cancelAnimationFrame_def Let_def










lemma speed_animate [simp]: "speed (animationState (animate ts w)) = speed (animationState w)"
  by (simp add: animate_def Let_def split: option.splits)




lemma cancel_tracked_simps [simp]:
  "kolamData (cancel_tracked w) = kolamData w"
  "lastFrameTime (cancel_tracked w) = lastFrameTime w"
  "ctx (cancel_tracked w) = ctx w"
  "textContent (cancel_tracked w) = textContent w"
  "issued (cancel_tracked w) = issued w"
  "uncaught (cancel_tracked w) = uncaught w"
  "animationState (cancel_tracked w) = animationState w"
  by (simp_all add: cancel_tracked_def cancelAnimationFrame_def split: option.splits)

lemma pending_cancel_tracked:
  "pending (cancel_tracked w) =
     (case animationId (animationState w) of
        None \<Rightarrow> pending w
      | Some h \<Rightarrow> if h = 0 then pending w else removeAll h (pending w))"
  by (simp add: cancel_tracked_def cancelAnimationFrame_def truthy_id_def split: option.splits)

lemma one_frame_cases:
  "one_frame w \<longleftrightarrow>
     pending w = [] \<or>
     (\<exists>h. pending w = [h] \<and> isPlaying (animationState w) \<and> h \<noteq> 0
          \<and> animationId (animationState w) = Some h)"
  by (auto simp add: one_frame_def split: list.splits)

lemma one_frame_cancelled: "one_frame w \<Longrightarrow> pending (cancel_tracked w) = []"
  by (auto simp add: one_frame_cases pending_cancel_tracked split: option.splits)

lemma one_frame_paused: "one_frame w \<Longrightarrow> \<not> isPlaying (animationState w) \<Longrightarrow> pending w = []"
  by (auto simp add: one_frame_cases)

lemma toggle_play:
  assumes "\<not> isPlaying (animationState w)"
  shows "togglePlayPause w =
    animate 0 (setPlayIcon glyph_pause (w\<lparr>animationState := (animationState w)\<lparr>isPlaying := True\<rparr>\<rparr>))"
  using assms by (simp add: togglePlayPause_def Let_def)

lemma toggle_pause:
  assumes "isPlaying (animationState w)"
  shows "togglePlayPause w =
    cancel_tracked (setPlayIcon glyph_play (w\<lparr>animationState := (animationState w)\<lparr>isPlaying := False\<rparr>\<rparr>))"
  using assms by (simp add: togglePlayPause_def Let_def)


lemma toggle_pause_pending:
  "isPlaying (animationState w) \<Longrightarrow> one_frame w \<Longrightarrow> pending (togglePlayPause w) = []"
  by (auto simp add: toggle_pause one_frame_cases pending_cancel_tracked split: option.splits)






lemma initializeCanvas_simps [simp]:
  "kolamData (initializeCanvas w) = kolamData w"
  "lastFrameTime (initializeCanvas w) = lastFrameTime w"
  "pending (initializeCanvas w) = pending w"
  "issued (initializeCanvas w) = issued w"
  "uncaught (initializeCanvas w) = uncaught w"
  "speed (animationState (initializeCanvas w)) = speed (animationState w)"
  "animationId (animationState (initializeCanvas w)) = animationId (animationState w)"
  by (simp_all add: initializeCanvas_def drawGridDots_def Let_def split: option.splits)

lemma ctx_initializeCanvas:
  "ctx (initializeCanvas w) = map_option (\<lambda>ops. ops @ redraw_ops (kolamData w)) (ctx w)"
  by (simp add: initializeCanvas_def drawGridDots_def redraw_ops_def Let_def split: option.splits)

lemma resetAnimation_simps [simp]:
  "kolamData (resetAnimation w) = kolamData w"
  "lastFrameTime (resetAnimation w) = lastFrameTime w"
  "issued (resetAnimation w) = issued w"
  "uncaught (resetAnimation w) = uncaught w"
  "pending (resetAnimation w) = pending (cancel_tracked w)"
  "speed (animationState (resetAnimation w)) = speed (animationState w)"
  "animationId (animationState (resetAnimation w)) = animationId (animationState w)"
  "isPlaying (animationState (resetAnimation w)) = False"
  "currentPathIndex (animationState (resetAnimation w)) = 0"
  "currentPointIndex (animationState (resetAnimation w)) = 0"
  "textContent (resetAnimation w) ''playIcon'' = glyph_play"
  "ctx (resetAnimation w) = map_option (\<lambda>ops. ops @ redraw_ops (kolamData w)) (ctx w)"
  by (simp_all add: resetAnimation_def ctx_initializeCanvas Let_def)
    (simp_all add: initializeCanvas_def drawGridDots_def Let_def split: option.splits)






text \<open>The controls and the frames keep at most one frame pending, the tracked one.\<close>

lemma one_frame_animate:
  "isPlaying (animationState w) \<Longrightarrow> pending w = [] \<Longrightarrow> one_frame (animate ts w)"
  by (simp add: animate_def Let_def one_frame_def schedule_eq complete_def setPlayIcon_def
      throw_def split: option.splits)

lemma speedInput_simps [simp]:
  "kolamData (speedInput numstr v w) = kolamData w"
  "pending (speedInput numstr v w) = pending w"
  "isPlaying (animationState (speedInput numstr v w)) = isPlaying (animationState w)"
  "animationId (animationState (speedInput numstr v w)) = animationId (animationState w)"
  "currentPathIndex (animationState (speedInput numstr v w)) = currentPathIndex (animationState w)"
  "currentPointIndex (animationState (speedInput numstr v w))
     = currentPointIndex (animationState w)"
  by (simp_all add: speedInput_def setText_def)

lemma one_frame_handle: "one_frame w \<Longrightarrow> one_frame (handle numstr ev w)"
proof (cases ev)
  case ClickPlayPause
  assume o: "one_frame w"
  show ?thesis
  proof (cases "isPlaying (animationState w)")
    case True
    with o have "pending (togglePlayPause w) = []" by (simp add: toggle_pause_pending)
    with ClickPlayPause show ?thesis by (simp add: one_frame_def)
  next
    case False
    with o have "pending w = []" by (simp add: one_frame_paused)
    with False ClickPlayPause show ?thesis
      by (simp add: toggle_play one_frame_animate)
  qed
next
  case ClickReset
  assume "one_frame w"
  then have "pending (resetAnimation w) = []" by (simp add: one_frame_cancelled)
  with ClickReset show ?thesis by (simp add: one_frame_def)
next
  case (SpeedInput v)
  assume "one_frame w"
  with SpeedInput show ?thesis by (simp add: one_frame_cases)
next
  case (AnimationFrame ts)
  assume o: "one_frame w"
  show ?thesis
  proof (cases "pending w")
    case Nil
    with o AnimationFrame show ?thesis by (simp add: animationFrame_def)
  next
    case (Cons h hs)
    with o have "hs = []" "isPlaying (animationState w)"
      by (auto simp add: one_frame_cases)
    with Cons AnimationFrame show ?thesis
      by (simp add: animationFrame_def one_frame_animate)
  qed
qed

lemma one_frame_run: "one_frame w \<Longrightarrow> one_frame (run numstr evs w)"
  unfolding run_def by (induction evs arbitrary: w) (simp_all add: one_frame_handle)

lemma one_frame_initial: "one_frame initial_world"
  by (simp add: one_frame_def initial_world_def)

lemma kolamData_animate [simp]: "kolamData (animate ts w) = kolamData w"
  by (simp add: animate_def Let_def split: option.splits)

lemma kolamData_handle [simp]: "kolamData (handle numstr ev w) = kolamData w"
  by (cases ev) (simp_all add: togglePlayPause_def Let_def animationFrame_def split: list.splits)

lemma cursors_ok_animate:
  "kolamData w = Some k \<Longrightarrow> cursors_ok k w \<Longrightarrow> cursors_ok k (animate ts w)"
  by (auto simp add: animate_def Let_def cursors_ok_def split: option.splits)

lemma cursors_ok_cong:
  "currentPathIndex (animationState w') = currentPathIndex (animationState w)
   \<Longrightarrow> currentPointIndex (animationState w') = currentPointIndex (animationState w)
   \<Longrightarrow> cursors_ok k w' = cursors_ok k w"
  by (simp add: cursors_ok_def)

lemma cursors_ok_start:
  "currentPathIndex (animationState w) = 0 \<Longrightarrow> currentPointIndex (animationState w) = 0
   \<Longrightarrow> cursors_ok k w"
  by (simp add: cursors_ok_def)

lemma cursors_ok_handle:
  assumes "kolamData w = Some k" and "cursors_ok k w"
  shows "cursors_ok k (handle numstr ev w)"
proof (cases ev)
  case ClickPlayPause
  show ?thesis
  proof (cases "isPlaying (animationState w)")
    case True
    have "cursors_ok k (togglePlayPause w) = cursors_ok k w"
      by (rule cursors_ok_cong) (simp_all add: toggle_pause True)
    with assms ClickPlayPause show ?thesis by simp
  next
    case False
    let ?w = "setPlayIcon glyph_pause (w\<lparr>animationState := (animationState w)\<lparr>isPlaying := True\<rparr>\<rparr>)"
    have "cursors_ok k ?w = cursors_ok k w"
      by (rule cursors_ok_cong) simp_all
    with assms have "cursors_ok k (animate 0 ?w)"
      by (intro cursors_ok_animate) simp_all
    with False ClickPlayPause show ?thesis by (simp add: toggle_play)
  qed
next
  case ClickReset
  then show ?thesis by (simp add: cursors_ok_start)
next
  case (SpeedInput v)
  have "cursors_ok k (speedInput numstr v w) = cursors_ok k w"
    by (rule cursors_ok_cong) simp_all
  with assms SpeedInput show ?thesis by simp
next
  case (AnimationFrame ts)
  show ?thesis
  proof (cases "pending w")
    case Nil
    with assms AnimationFrame show ?thesis by (simp add: animationFrame_def)
  next
    case (Cons h hs)
    have "cursors_ok k (w\<lparr>pending := hs\<rparr>) = cursors_ok k w"
      by (rule cursors_ok_cong) simp_all
    with assms have "cursors_ok k (animate ts (w\<lparr>pending := hs\<rparr>))"
      by (intro cursors_ok_animate) simp_all
    with Cons AnimationFrame show ?thesis by (simp add: animationFrame_def)
  qed
qed

lemma cursors_ok_spec:
  "cursors_ok k w \<Longrightarrow> \<forall>p\<in>set (paths k). p \<noteq> [] \<Longrightarrow> cursor_range_spec k w"
proof -
  assume c: "cursors_ok k w" and n: "\<forall>p\<in>set (paths k). p \<noteq> []"
  let ?i = "currentPathIndex (animationState w)"
  have "0 < length (paths k ! ?i)" if "?i < length (paths k)"
    using that n by (simp add: nth_mem)
  with c show ?thesis
    by (auto simp add: cursors_ok_def cursor_range_spec_def Let_def)
qed

text \<open>
  C4, as the script has it. Through every sequence of play/pause clicks, reset clicks,
  slider inputs and animation frames the record stays the same, \<open>currentPathIndex\<close>
  stays at most the number of paths, and while it names a path \<open>currentPointIndex\<close>
  stays at most that path's last index, or is 0 when the path is empty. For a record
  without an empty path this is the range \<open>[0, currentPath.length - 1]\<close>.
\<close>

theorem cursors_invariant:
  assumes "kolamData w = Some k" and "cursors_ok k w"
  shows "kolamData (run numstr evs w) = Some k
    \<and> cursors_ok k (run numstr evs w)
    \<and> ((\<forall>p\<in>set (paths k). p \<noteq> []) \<longrightarrow> cursor_range_spec k (run numstr evs w))"
proof -
  have "kolamData (run numstr evs w) = Some k \<and> cursors_ok k (run numstr evs w)"
    using assms unfolding run_def
  proof (induction evs arbitrary: w)
    case Nil
    then show ?case by simp
  next
    case (Cons ev evs)
    from Cons.prems have "kolamData (handle numstr ev w) = Some k"
      and "cursors_ok k (handle numstr ev w)"
      by (simp_all add: cursors_ok_handle)
    from Cons.IH [OF this] show ?case by simp
  qed
  then show ?thesis by (simp add: cursors_ok_spec)
qed

text \<open>
  On an empty path the point index 0 lies outside \<open>[0, currentPath.length - 1]\<close>: the
  sample record with an empty second path, after the first path has been played.
\<close>

theorem empty_path_counterexample:
  "kolamData (run demo_numstr [ClickPlayPause, AnimationFrame 100, AnimationFrame 200] gap_world)
     = Some gap_kolam
   \<and> currentPathIndex (animationState
        (run demo_numstr [ClickPlayPause, AnimationFrame 100, AnimationFrame 200] gap_world)) = 1
   \<and> currentPointIndex (animationState
        (run demo_numstr [ClickPlayPause, AnimationFrame 100, AnimationFrame 200] gap_world)) = 0
   \<and> paths gap_kolam ! 1 = []
   \<and> \<not> cursor_range_spec gap_kolam
        (run demo_numstr [ClickPlayPause, AnimationFrame 100, AnimationFrame 200] gap_world)"
  by (simp add: run_def cursor_range_spec_def eval_defs demo_defs)

theorem cursors_invariant_witness:
  "kolamData (run demo_numstr
      [ClickPlayPause, AnimationFrame 100, SpeedInput 2, AnimationFrame 130] demo_world)
     = Some demo_kolam
   \<and> currentPathIndex (animationState (run demo_numstr
        [ClickPlayPause, AnimationFrame 100, SpeedInput 2, AnimationFrame 130] demo_world)) = 1
   \<and> currentPathIndex (animationState (run demo_numstr
        [ClickPlayPause, AnimationFrame 100, SpeedInput 2, AnimationFrame 130] demo_world))
       \<le> length (paths demo_kolam)
   \<and> int (currentPointIndex (animationState (run demo_numstr
        [ClickPlayPause, AnimationFrame 100, SpeedInput 2, AnimationFrame 130] demo_world)))
       \<le> int (length (paths demo_kolam ! 1)) - 1"
proof -
  let ?r = "run demo_numstr
      [ClickPlayPause, AnimationFrame 100, SpeedInput 2, AnimationFrame 130] demo_world"
  have d: "kolamData demo_world = Some demo_kolam" "cursors_ok demo_kolam demo_world"
    by (simp_all add: cursors_ok_def demo_defs)
  have n: "\<forall>p\<in>set (paths demo_kolam). p \<noteq> []"
    by (simp add: demo_kolam_def)
  from cursors_invariant [OF d, of demo_numstr
      "[ClickPlayPause, AnimationFrame 100, SpeedInput 2, AnimationFrame 130]"] n
  have "kolamData ?r = Some demo_kolam" and c: "cursor_range_spec demo_kolam ?r"
    by simp_all
  moreover have i: "currentPathIndex (animationState ?r) = 1"
    by (simp add: run_def speedInput_def setText_def eval_defs demo_defs)
  moreover from c i have "int (currentPointIndex (animationState ?r))
      \<le> int (length (paths demo_kolam ! 1)) - 1"
    by (simp add: cursor_range_spec_def Let_def demo_kolam_def)
  ultimately show ?thesis
    by (simp add: demo_kolam_def)
qed

end
